theory Spec2Isabelle
  imports Complex_Main "HOL-Library.Sublist"
begin

section \<open>Python values and exceptions\<close>

text \<open>
  The service of \<^verbatim>\<open>app.py\<close> handles whatever \<^verbatim>\<open>request.json\<close> gives it: a Python value
  built from JSON. A \<^verbatim>\<open>str\<close> is a \<^typ>\<open>string\<close> whose characters are read as the code
  points 0 to 255; text with higher code points is outside this development. A \<^verbatim>\<open>dict\<close>
  is an association list read with \<^const>\<open>map_of\<close>.
\<close>

datatype pyfloat = FFinite rat | FInfinity bool | FNaN

datatype pyval =
    PNone
  | PBool bool
  | PInt int
  | PFloat pyfloat
  | PStr string
  | PList "pyval list"
  | PDict "(string \<times> pyval) list"

text \<open>
  A raised exception with its \<^verbatim>\<open>str()\<close>. \<^verbatim>\<open>json.JSONDecodeError\<close> is a subclass of
  \<^verbatim>\<open>ValueError\<close> and is a \<open>ValueError\<close> here; \<open>OtherException\<close> is any other
  subclass of \<^verbatim>\<open>Exception\<close>.
\<close>

datatype exn =
    ValueError string
  | AttributeError string
  | IndexError string
  | OtherException string

fun str_exn :: "exn \<Rightarrow> string" where
  "str_exn (ValueError m) = m"
| "str_exn (AttributeError m) = m"
| "str_exn (IndexError m) = m"
| "str_exn (OtherException m) = m"

fun type_name :: "pyval \<Rightarrow> string" where
  "type_name PNone = ''NoneType''"
| "type_name (PBool _) = ''bool''"
| "type_name (PInt _) = ''int''"
| "type_name (PFloat _) = ''float''"
| "type_name (PStr _) = ''str''"
| "type_name (PList _) = ''list''"
| "type_name (PDict _) = ''dict''"

definition no_attribute :: "pyval \<Rightarrow> string \<Rightarrow> exn" where
  \<open>no_attribute v a =
     AttributeError ([CHR 0x27] @ type_name v @ ''\' object has no attribute '' @
       [CHR 0x27] @ a @ [CHR 0x27])\<close>

text \<open>Truth value testing, as \<^verbatim>\<open>not subject\<close> uses it.\<close>

fun truthy :: "pyval \<Rightarrow> bool" where
  "truthy PNone = False"
| "truthy (PBool b) = b"
| "truthy (PInt i) = (i \<noteq> 0)"
| "truthy (PFloat f) = (f \<noteq> FFinite 0)"
| "truthy (PStr s) = (s \<noteq> [])"
| "truthy (PList xs) = (xs \<noteq> [])"
| "truthy (PDict kvs) = (kvs \<noteq> [])"

text \<open>\<^verbatim>\<open>data.get(key, default)\<close>: only a dict has the method.\<close>

fun py_get :: "pyval \<Rightarrow> string \<Rightarrow> pyval \<Rightarrow> exn + pyval" where
  "py_get (PDict kvs) k d = Inr (case map_of kvs k of Some v \<Rightarrow> v | None \<Rightarrow> d)"
| "py_get v k d = Inl (no_attribute v ''get'')"

text \<open>Reading a key of a returned object; a value that is not a dict has no keys.\<close>

fun has_key :: "pyval \<Rightarrow> string \<Rightarrow> bool" where
  "has_key (PDict kvs) k = (map_of kvs k \<noteq> None)"
| "has_key v k = False"

fun lookup :: "pyval \<Rightarrow> string \<Rightarrow> pyval option" where
  "lookup (PDict kvs) k = map_of kvs k"
| "lookup v k = None"

fun items :: "pyval option \<Rightarrow> pyval list" where
  "items (Some (PList xs)) = xs"
| "items v = []"

section \<open>String operations of the Python runtime\<close>

text \<open>\<^verbatim>\<open>str.isspace\<close> on the code points below 256.\<close>

definition is_space :: "char \<Rightarrow> bool" where
  "is_space c = ((of_char c :: nat) \<in> {9, 10, 11, 12, 13, 28, 29, 30, 31, 32, 133, 160})"

definition strip :: "string \<Rightarrow> string" where
  "strip s = rev (dropWhile is_space (rev (dropWhile is_space s)))"

text \<open>\<^verbatim>\<open>str.lower\<close> on the code points below 256.\<close>

definition lower_char :: "char \<Rightarrow> char" where
  "lower_char c =
     (let n = (of_char c :: nat)
      in if (65 \<le> n \<and> n \<le> 90) \<or> (192 \<le> n \<and> n \<le> 222 \<and> n \<noteq> 215)
         then char_of (n + 32) else c)"

definition lower :: "string \<Rightarrow> string" where
  "lower s = map lower_char s"

fun py_lower :: "pyval \<Rightarrow> exn + string" where
  "py_lower (PStr s) = Inr (lower s)"
| "py_lower v = Inl (no_attribute v ''lower'')"

text \<open>
  \<^verbatim>\<open>text.split(sep)\<close>: the pieces between the occurrences of \<open>sep\<close>, found from the left
  without overlap. The accumulator holds the current piece reversed.
\<close>

function split_from :: "string \<Rightarrow> string \<Rightarrow> string \<Rightarrow> string list" where
  "split_from sep acc [] = [rev acc]"
| "split_from sep acc (c # cs) =
     (if prefix sep (c # cs)
      then rev acc # split_from sep [] (drop (length sep - 1) cs)
      else split_from sep (c # acc) cs)"
  by pat_completeness auto
termination
  by (relation "measure (\<lambda>(sep, acc, s). length s)") auto

definition py_split :: "string \<Rightarrow> string \<Rightarrow> exn + string list" where
  "py_split sep s =
     (if sep = [] then Inl (ValueError ''empty separator'') else Inr (split_from sep [] s))"

definition py_index :: "'a list \<Rightarrow> nat \<Rightarrow> exn + 'a" where
  "py_index xs i = (if i < length xs then Inr (xs ! i) else Inl (IndexError ''list index out of range''))"

section \<open>The environment of a request\<close>

text \<open>
  What the handler reads from outside the repository; each call either raises or returns.
  \<^item> \<open>api_key\<close> is \<^verbatim>\<open>os.environ.get("GOOGLE_API_KEY")\<close>;
  \<^item> \<open>configure\<close> is \<^verbatim>\<open>genai.configure(api_key=...)\<close> followed by
    \<^verbatim>\<open>genai.GenerativeModel(...)\<close>;
  \<^item> \<open>generate_content\<close> is \<^verbatim>\<open>model.generate_content(prompt)\<close> followed by the read
    of \<^verbatim>\<open>response.text\<close>;
  \<^item> \<open>loads\<close> is \<^verbatim>\<open>json.loads\<close>;
  \<^item> \<open>str_other\<close> is \<^verbatim>\<open>str()\<close> of a value that is not a \<^verbatim>\<open>str\<close>, as an f-string
    formats it.
\<close>

record env =
  api_key :: "string option"
  configure :: "string \<Rightarrow> exn + unit"
  generate_content :: "string \<Rightarrow> exn + string"
  loads :: "string \<Rightarrow> exn + pyval"
  str_other :: "pyval \<Rightarrow> string"

fun py_str :: "env \<Rightarrow> pyval \<Rightarrow> string" where
  "py_str e (PStr s) = s"
| "py_str e v = str_other e v"

section \<open>initialize_gemini\<close>

definition missing_key_message :: string where
  "missing_key_message = ''Missing GOOGLE_API_KEY environment variable. Please check your .env file.''"

definition initialize_gemini :: "env \<Rightarrow> exn + unit" where
  "initialize_gemini e =
     (case api_key e of
        None \<Rightarrow> Inl (ValueError missing_key_message)
      | Some k \<Rightarrow> if k = [] then Inl (ValueError missing_key_message) else configure e k)"

section \<open>The prompt\<close>

definition prompt_intro :: string where
  "prompt_intro =
     ''\<newline>'' @
     ''        Act as a course recommendation system. Provide course recommendations based on the following parameters:\<newline>'' @
     ''        - Subject: ''"

definition prompt_instructions :: string where
  \<open>prompt_instructions =
     ''\<newline>'' @
     ''\<newline>'' @
     ''        ### **Instructions for Course URLs:**\<newline>'' @
     ''        - Only recommend courses from real platforms like **Coursera, YouTube, GeeksForGeeks, Udemy, edX, LinkedIn Learning, Pluralsight, or Khan Academy**.\<newline>'' @
     ''        - **DO NOT generate fake URLs.** Only provide real, verifiable course links.\<newline>'' @
     ''        - If you are unsure about a course URL, mention **"URL not found"** instead of a fake link.\<newline>''\<close>

definition prompt_format :: string where
  \<open>prompt_format =
     ''\<newline>'' @
     ''        Return your response in the following JSON format:\<newline>'' @
     ''        {\<newline>'' @
     ''            "recommendations": [\<newline>'' @
     ''                {\<newline>'' @
     ''                    "course_name": "Course name",\<newline>'' @
     ''                    "platform": "Platform name",\<newline>'' @
     ''                    "cost": "Cost in USD",\<newline>'' @
     ''                    "duration": "Estimated completion time",\<newline>'' @
     ''                    "description": "Brief description",\<newline>'' @
     ''                    "url": "Real course link or \'URL not found\'",\<newline>'' @
     ''                    "skill_level": "Beginner/Intermediate/Advanced"\<newline>'' @
     ''                }\<newline>'' @
     ''            ],\<newline>'' @
     ''            "roadmap": [\<newline>'' @
     ''                {\<newline>'' @
     ''                    "stage": "Stage 1: Fundamentals",\<newline>'' @
     ''                    "description": "Description of this stage",\<newline>'' @
     ''                    "estimated_time": "Time to complete this stage",\<newline>'' @
     ''                    "key_skills": ["skill1", "skill2", "skill3"],\<newline>'' @
     ''                    "resources": ["resource1", "resource2"]\<newline>'' @
     ''                }\<newline>'' @
     ''            ],\<newline>'' @
     ''            "additional_tips": "Additional learning tips"\<newline>'' @
     ''        }\<newline>'' @
     ''        ''\<close>

definition build_prompt :: "env \<Rightarrow> pyval \<Rightarrow> pyval \<Rightarrow> pyval \<Rightarrow> pyval \<Rightarrow> pyval \<Rightarrow> string" where
  "build_prompt e subject budget skill_level time_availability learning_style =
     prompt_intro @ py_str e subject @
     ''\<newline>        - Budget: '' @ py_str e budget @
     ''\<newline>        - Skill Level: '' @ py_str e skill_level @
     ''\<newline>        - Time Availability: '' @ py_str e time_availability @
     ''\<newline>        - Learning Style: '' @ py_str e learning_style @
     prompt_instructions @ prompt_format"

section \<open>Extraction of the JSON text\<close>

definition extract_json :: "string \<Rightarrow> exn + string" where
  "extract_json response_text =
     (if sublist ''```json'' response_text then
        (case py_split ''```json'' response_text of
           Inl x \<Rightarrow> Inl x
         | Inr ps \<Rightarrow>
             (case py_index ps 1 of
                Inl x \<Rightarrow> Inl x
              | Inr a \<Rightarrow>
                  (case py_split ''```'' a of
                     Inl x \<Rightarrow> Inl x
                   | Inr qs \<Rightarrow>
                       (case py_index qs 0 of
                          Inl x \<Rightarrow> Inl x
                        | Inr b \<Rightarrow> Inr (strip b)))))
      else if sublist ''```'' response_text then
        (case py_split ''```'' response_text of
           Inl x \<Rightarrow> Inl x
         | Inr ps \<Rightarrow>
             (case py_index ps 1 of
                Inl x \<Rightarrow> Inl x
              | Inr a \<Rightarrow> Inr (strip a)))
      else Inr response_text)"

section \<open>get_fallback_data\<close>

text \<open>
  The dict display is evaluated in order; the one call in it that can raise is
  \<^verbatim>\<open>skill_level.lower()\<close>, when \<open>skill_level\<close> is not a \<^verbatim>\<open>str\<close>.
\<close>

definition get_fallback_data :: "env \<Rightarrow> pyval \<Rightarrow> pyval \<Rightarrow> exn + pyval" where
  "get_fallback_data e subject skill_level =
     (case py_lower skill_level of
        Inl x \<Rightarrow> Inl x
      | Inr low \<Rightarrow>
          Inr (PDict
            [(''recommendations'', PList
               [PDict
                  [(''course_name'', PStr (py_str e subject @ '' for '' @ py_str e skill_level @ ''s'')),
                   (''platform'', PStr ''Coursera''),
                   (''cost'', PStr ''$49.99''),
                   (''duration'', PStr ''8 weeks''),
                   (''description'', PStr (''A comprehensive introduction to '' @ py_str e subject @
                      '' designed for '' @ low @ '' learners.'')),
                   (''url'', PStr ''https://coursera.org''),
                   (''skill_level'', skill_level)],
                PDict
                  [(''course_name'', PStr (''Advanced '' @ py_str e subject)),
                   (''platform'', PStr ''Udemy''),
                   (''cost'', PStr ''$29.99''),
                   (''duration'', PStr ''10 weeks''),
                   (''description'', PStr (''Take your '' @ py_str e subject @
                      '' skills to the next level with practical projects.'')),
                   (''url'', PStr ''https://udemy.com''),
                   (''skill_level'', PStr ''Intermediate'')],
                PDict
                  [(''course_name'', PStr (py_str e subject @ '' Bootcamp'')),
                   (''platform'', PStr ''edX''),
                   (''cost'', PStr ''$199.99''),
                   (''duration'', PStr ''12 weeks''),
                   (''description'', PStr (''Intensive '' @ py_str e subject @
                      '' training with industry experts.'')),
                   (''url'', PStr ''https://edx.org''),
                   (''skill_level'', PStr ''Advanced'')]]),
             (''roadmap'', PList
               [PDict
                  [(''stage'', PStr ''Stage 1: Fundamentals''),
                   (''description'', PStr (''Learn the basic concepts and principles of '' @ py_str e subject)),
                   (''estimated_time'', PStr ''4 weeks''),
                   (''key_skills'', PList [PStr ''Basic concepts'', PStr ''Terminology'', PStr ''Simple applications'']),
                   (''resources'', PList [PStr ''Textbooks'', PStr ''Online tutorials''])],
                PDict
                  [(''stage'', PStr ''Stage 2: Practical Application''),
                   (''description'', PStr (''Apply your knowledge of '' @ py_str e subject @ '' to real-world problems'')),
                   (''estimated_time'', PStr ''6 weeks''),
                   (''key_skills'', PList [PStr ''Problem-solving'', PStr ''Tool usage'', PStr ''Applied techniques'']),
                   (''resources'', PList [PStr ''Practice exercises'', PStr ''Case studies''])],
                PDict
                  [(''stage'', PStr ''Stage 3: Advanced Topics''),
                   (''description'', PStr (''Explore specialized areas within '' @ py_str e subject)),
                   (''estimated_time'', PStr ''8 weeks''),
                   (''key_skills'', PList [PStr ''Advanced methodologies'', PStr ''Specialized tools'', PStr ''Research skills'']),
                   (''resources'', PList [PStr ''Academic papers'', PStr ''Expert workshops''])]]),
             (''additional_tips'', PStr (''Consider joining online communities related to '' @ py_str e subject @
                '' to network with other learners and professionals. Consistent practice is key to mastering this field.''))]))"

section \<open>get_course_recommendations\<close>

text \<open>
  The \<^verbatim>\<open>try\<close> block: the first call that raises ends it. The \<^verbatim>\<open>print\<close> calls write to
  the log and are left out.
\<close>

definition get_course_recommendations_try ::
  "env \<Rightarrow> pyval \<Rightarrow> pyval \<Rightarrow> pyval \<Rightarrow> pyval \<Rightarrow> pyval \<Rightarrow> exn + pyval" where
  "get_course_recommendations_try e subject budget skill_level time_availability learning_style =
     (case initialize_gemini e of
        Inl x \<Rightarrow> Inl x
      | Inr model \<Rightarrow>
          (case generate_content e
                  (build_prompt e subject budget skill_level time_availability learning_style) of
             Inl x \<Rightarrow> Inl x
           | Inr response_text \<Rightarrow>
               (case extract_json response_text of
                  Inl x \<Rightarrow> Inl x
                | Inr json_str \<Rightarrow> loads e json_str)))"

definition error_object :: "string \<Rightarrow> pyval" where
  "error_object m = PDict [(''error'', PStr m)]"

text \<open>
  The two \<^verbatim>\<open>except\<close> clauses. An exception raised inside a handler (by
  \<open>get_fallback_data\<close>) leaves the function.
\<close>

definition get_course_recommendations ::
  "env \<Rightarrow> pyval \<Rightarrow> pyval \<Rightarrow> pyval \<Rightarrow> pyval \<Rightarrow> pyval \<Rightarrow> exn + pyval" where
  "get_course_recommendations e subject budget skill_level time_availability learning_style =
     (case get_course_recommendations_try e subject budget skill_level time_availability learning_style of
        Inr recommendations \<Rightarrow> Inr recommendations
      | Inl (ValueError m) \<Rightarrow>
          if sublist ''API key'' m then get_fallback_data e subject skill_level
          else Inr (error_object m)
      | Inl x \<Rightarrow> Inr (error_object (''Error getting recommendations: '' @ str_exn x)))"

section \<open>The endpoint\<close>

text \<open>
  A response is a status and a body. The argument is \<^verbatim>\<open>request.json\<close>, the parsed body.
\<close>

type_synonym response = "nat \<times> pyval"

definition recommendations_try :: "env \<Rightarrow> pyval \<Rightarrow> exn + response" where
  "recommendations_try e data =
     (case py_get data ''subject'' (PStr []) of Inl x \<Rightarrow> Inl x | Inr subject \<Rightarrow>
     (case py_get data ''budget'' (PStr []) of Inl x \<Rightarrow> Inl x | Inr budget \<Rightarrow>
     (case py_get data ''skillLevel'' (PStr []) of Inl x \<Rightarrow> Inl x | Inr skill_level \<Rightarrow>
     (case py_get data ''timeAvailability'' (PStr []) of Inl x \<Rightarrow> Inl x | Inr time_availability \<Rightarrow>
     (case py_get data ''learningStyle'' (PStr []) of Inl x \<Rightarrow> Inl x | Inr learning_style \<Rightarrow>
        if \<not> truthy subject then Inr (400, error_object ''Subject is required'')
        else
          (case get_course_recommendations e subject budget skill_level time_availability learning_style of
             Inl x \<Rightarrow> Inl x
           | Inr result \<Rightarrow> Inr (200, result)))))))"

definition recommendations :: "env \<Rightarrow> pyval \<Rightarrow> response" where
  "recommendations e data =
     (case recommendations_try e data of
        Inr r \<Rightarrow> r
      | Inl x \<Rightarrow> (500, error_object (''Server error: '' @ str_exn x)))"

section \<open>Environments of worked requests\<close>

text \<open>
  A stand-in for \<^verbatim>\<open>json.loads\<close> on the texts of a table: the value the table gives, and
  the decode error of \<^verbatim>\<open>json.loads\<close> for a text that does not start a JSON value.
\<close>

definition loads_table :: "(string \<times> pyval) list \<Rightarrow> string \<Rightarrow> exn + pyval" where
  "loads_table tbl s =
     (case map_of tbl s of
        Some v \<Rightarrow> Inr v
      | None \<Rightarrow> Inl (ValueError ''Expecting value: line 1 column 1 (char 0)''))"

text \<open>A configured credential and a provider that replies \<open>raw\<close>.\<close>

definition env_reply :: "string \<Rightarrow> (string \<times> pyval) list \<Rightarrow> env" where
  "env_reply raw tbl =
     \<lparr>api_key = Some ''secret'', configure = (\<lambda>k. Inr ()), generate_content = (\<lambda>p. Inr raw),
      loads = loads_table tbl, str_other = type_name\<rparr>"

text \<open>A configured credential and a provider whose call raises \<open>x\<close>.\<close>

definition env_raise :: "exn \<Rightarrow> env" where
  "env_raise x =
     \<lparr>api_key = Some ''secret'', configure = (\<lambda>k. Inr ()), generate_content = (\<lambda>p. Inl x),
      loads = loads_table [], str_other = type_name\<rparr>"

text \<open>Replies of the provider.\<close>

definition reply_fenced_json :: string where
  \<open>reply_fenced_json = ''```json\<newline>{"a":1}\<newline>```''\<close>

definition reply_fenced :: string where
  \<open>reply_fenced = ''```\<newline>{"a":1}\<newline>```''\<close>

definition reply_bare :: string where
  \<open>reply_bare = ''{"a":1}''\<close>

definition reply_both_keys :: string where
  \<open>reply_both_keys = ''{"error": "quota", "recommendations": []}''\<close>

section \<open>Facts used below\<close>

lemma missing_key_message_no_match: "\<not> sublist ''API key'' missing_key_message"
  by code_simp

lemma sublist_in_right: "sublist x r \<Longrightarrow> sublist x (p @ r)"
  by (simp add: sublist_append)

lemma sublist_in_left: "sublist x p \<Longrightarrow> sublist x (p @ r)"
  by (simp add: sublist_append)

lemma instructions_Coursera: "sublist ''Coursera'' prompt_instructions"
  by code_simp

lemma instructions_YouTube: "sublist ''YouTube'' prompt_instructions"
  by code_simp

lemma instructions_URL_not_found: "sublist ''URL not found'' prompt_instructions"
  by code_simp

lemma build_prompt_tail:
  "sublist x prompt_instructions \<Longrightarrow> sublist x (build_prompt e s b k t y)"
  unfolding build_prompt_def
  by (intro sublist_in_right sublist_in_left)

lemma extract_fenced_json: \<open>extract_json reply_fenced_json = Inr ''{"a":1}''\<close>
  by code_simp

lemma extract_fenced: \<open>extract_json reply_fenced = Inr ''{"a":1}''\<close>
  by code_simp

lemma extract_bare: \<open>extract_json reply_bare = Inr ''{"a":1}''\<close>
  by code_simp

lemma env_reply_simps:
  "api_key (env_reply raw tbl) = Some ''secret''"
  "configure (env_reply raw tbl) k = Inr ()"
  "generate_content (env_reply raw tbl) p = Inr raw"
  "loads (env_reply raw tbl) = loads_table tbl"
  by (simp_all add: env_reply_def)

lemma env_raise_simps:
  "api_key (env_raise x) = Some ''secret''"
  "configure (env_raise x) k = Inr ()"
  "generate_content (env_raise x) p = Inl x"
  by (simp_all add: env_raise_def)

lemma initialize_env_reply: "initialize_gemini (env_reply raw tbl) = Inr ()"
  by (simp add: initialize_gemini_def env_reply_simps)

lemma initialize_env_raise: "initialize_gemini (env_raise x) = Inr ()"
  by (simp add: initialize_gemini_def env_raise_simps)


lemma resolver_on_fault:
  assumes "get_course_recommendations_try e s b k t y = Inl x"
  shows "get_course_recommendations e s b k t y =
     (case x of
        ValueError m \<Rightarrow>
          if sublist ''API key'' m then get_fallback_data e s k else Inr (error_object m)
      | _ \<Rightarrow> Inr (error_object (''Error getting recommendations: '' @ str_exn x)))"
  using assms by (cases x) (simp_all add: get_course_recommendations_def)

lemma endpoint_on_fields:
  assumes "py_get data ''subject'' (PStr []) = Inr s"
    and "py_get data ''budget'' (PStr []) = Inr b"
    and "py_get data ''skillLevel'' (PStr []) = Inr k"
    and "py_get data ''timeAvailability'' (PStr []) = Inr t"
    and "py_get data ''learningStyle'' (PStr []) = Inr y"
    and "truthy s"
  shows "recommendations e data =
     (case get_course_recommendations e s b k t y of
        Inl x \<Rightarrow> (500, error_object (''Server error: '' @ str_exn x))
      | Inr r \<Rightarrow> (200, r))"
  using assms by (simp add: recommendations_def recommendations_try_def split: sum.splits)



lemma fallback_on_other_skill:
  "\<forall>k'. k \<noteq> PStr k' \<Longrightarrow> get_fallback_data e s k = Inl (no_attribute k ''lower'')"
  by (cases k) (simp_all add: get_fallback_data_def)

lemma resolver_both_keys_reply:
  assumes "get_course_recommendations e s b k t y = Inr r"
    and "has_key r ''error''" and "has_key r ''recommendations''"
  shows "\<exists>raw js. generate_content e (build_prompt e s b k t y) = Inr raw \<and>
           extract_json raw = Inr js \<and> loads e js = Inr r"
proof (cases "get_course_recommendations_try e s b k t y")
  case (Inr r')
  then have "r' = r"
    using assms(1) by (simp add: get_course_recommendations_def)
  with Inr show ?thesis
    by (auto simp: get_course_recommendations_try_def split: sum.splits)
next
  case (Inl x)
  have "\<not> (has_key r ''error'' \<and> has_key r ''recommendations'')"
    using resolver_on_fault [OF Inl] assms(1)
    by (cases x) (auto simp: error_object_def get_fallback_data_def split: if_splits sum.splits)
  with assms show ?thesis by simp
qed

lemma endpoint_both_keys:
  assumes "has_key (snd (recommendations e data)) ''error''"
    and "has_key (snd (recommendations e data)) ''recommendations''"
  shows "fst (recommendations e data) = 200 \<and>
        (\<exists>s b k t y raw js.
           py_get data ''subject'' (PStr []) = Inr s \<and>
           py_get data ''budget'' (PStr []) = Inr b \<and>
           py_get data ''skillLevel'' (PStr []) = Inr k \<and>
           py_get data ''timeAvailability'' (PStr []) = Inr t \<and>
           py_get data ''learningStyle'' (PStr []) = Inr y \<and>
           generate_content e (build_prompt e s b k t y) = Inr raw \<and>
           extract_json raw = Inr js \<and>
           loads e js = Inr (snd (recommendations e data)))"
proof (cases "recommendations_try e data")
  case (Inl x)
  with assms show ?thesis
    by (simp add: recommendations_def error_object_def)
next
  case (Inr resp)
  then have body: "recommendations e data = resp"
    by (simp add: recommendations_def)
  from Inr obtain s b k t y where
    f: "py_get data ''subject'' (PStr []) = Inr s" "py_get data ''budget'' (PStr []) = Inr b"
      "py_get data ''skillLevel'' (PStr []) = Inr k"
      "py_get data ''timeAvailability'' (PStr []) = Inr t"
      "py_get data ''learningStyle'' (PStr []) = Inr y"
    by (auto simp: recommendations_try_def split: sum.splits)
  show ?thesis
  proof (cases "truthy s")
    case False
    with Inr f have "resp = (400, error_object ''Subject is required'')"
      by (simp add: recommendations_try_def)
    with body assms show ?thesis
      by (simp add: error_object_def)
  next
    case True
    with Inr f obtain r where r: "get_course_recommendations e s b k t y = Inr r"
      and resp: "resp = (200, r)"
      by (auto simp: recommendations_try_def split: sum.splits)
    from assms body resp have "has_key r ''error''" "has_key r ''recommendations''"
      by simp_all
    from resolver_both_keys_reply [OF r this] f body resp show ?thesis
      by auto
  qed
qed

lemma endpoint_returns_reply:
  assumes "py_get data ''subject'' (PStr []) = Inr s"
    and "py_get data ''budget'' (PStr []) = Inr b"
    and "py_get data ''skillLevel'' (PStr []) = Inr k"
    and "py_get data ''timeAvailability'' (PStr []) = Inr t"
    and "py_get data ''learningStyle'' (PStr []) = Inr y"
    and "truthy s"
    and "generate_content e (build_prompt e s b k t y) = Inr raw"
    and "extract_json raw = Inr js"
    and "loads e js = Inr r"
    and "initialize_gemini e = Inr ()"
  shows "recommendations e data = (200, r)"
proof -
  have "get_course_recommendations e s b k t y = Inr r"
    using assms(7-10)
    by (simp add: get_course_recommendations_def get_course_recommendations_try_def)
  then show ?thesis
    by (simp add: endpoint_on_fields [OF assms(1-6)])
qed

lemma both_keys_response:
  "recommendations
      (env_reply reply_both_keys
         [(reply_both_keys, PDict [(''error'', PStr ''quota''), (''recommendations'', PList [])])])
      (PDict [(''subject'', PStr ''Python'')]) =
    (200, PDict [(''error'', PStr ''quota''), (''recommendations'', PList [])])"
proof -
  have x: "extract_json reply_both_keys = Inr reply_both_keys"
    by code_simp
  show ?thesis
    by (simp add: recommendations_def recommendations_try_def get_course_recommendations_def
        get_course_recommendations_try_def initialize_env_reply env_reply_simps x loads_table_def)
qed

text \<open>Facts about \<open>split_from\<close> and the three branches of the extraction.\<close>

lemma split_from_nonempty: "split_from sep acc s \<noteq> []"
  by (induction sep acc s rule: split_from.induct) auto

lemma split_from_none: "\<not> sublist sep s \<Longrightarrow> split_from sep acc s = [rev acc @ s]"
proof (induction s arbitrary: acc)
  case Nil
  then show ?case by simp
next
  case (Cons c cs)
  then have "\<not> prefix sep (c # cs)" and "\<not> sublist sep cs"
    by (auto simp: sublist_Cons_right)
  with Cons.IH [of "c # acc"] show ?case by simp
qed

lemma prefix_of_longer:
  assumes "prefix sep (pre @ sep @ rest)" and "pre \<noteq> []"
  shows "prefix sep (pre @ butlast sep)"
proof (cases "sep = []")
  case True
  then show ?thesis by simp
next
  case False
  then have "pre @ sep @ rest = (pre @ butlast sep) @ (last sep # rest)"
    by (metis append_butlast_last_id append.assoc append_Cons append_Nil)
  then have "prefix (pre @ butlast sep) (pre @ sep @ rest)"
    by (metis prefixI)
  moreover have "length sep \<le> length (pre @ butlast sep)"
    using assms(2) False by (cases pre) auto
  ultimately show ?thesis
    using assms(1) prefix_length_prefix by blast
qed

lemma split_from_first:
  assumes "sep \<noteq> []" and "\<not> sublist sep (pre @ butlast sep)"
  shows "split_from sep acc (pre @ sep @ rest) = (rev acc @ pre) # split_from sep [] rest"
  using assms(2)
proof (induction pre arbitrary: acc)
  case Nil
  from assms(1) obtain c cs where sep: "sep = c # cs"
    by (cases sep) auto
  then show ?case by simp
next
  case (Cons p ps)
  have np: "\<not> prefix sep ((p # ps) @ sep @ rest)"
    using Cons.prems prefix_of_longer [of sep "p # ps" rest] by auto
  have "\<not> sublist sep (ps @ butlast sep)"
    using Cons.prems by (auto simp: sublist_Cons_right)
  from Cons.IH [OF this, of "p # acc"] np show ?case by simp
qed


lemma split_from_hd:
  "\<exists>n. n \<le> length s \<and> hd (split_from sep acc s) = rev acc @ take n s \<and>
       (n = length s \<or> prefix sep (drop n s))"
proof (induction sep acc s rule: split_from.induct)
  case (1 sep acc)
  then show ?case by simp
next
  case (2 sep acc c cs)
  show ?case
  proof (cases "prefix sep (c # cs)")
    case True
    then have "0 \<le> length (c # cs) \<and> hd (split_from sep acc (c # cs)) = rev acc @ take 0 (c # cs) \<and>
        (0 = length (c # cs) \<or> prefix sep (drop 0 (c # cs)))"
      by simp
    then show ?thesis by blast
  next
    case False
    with 2 obtain n where n: "n \<le> length cs"
      "hd (split_from sep (c # acc) cs) = rev (c # acc) @ take n cs"
      "n = length cs \<or> prefix sep (drop n cs)"
      by blast
    with False have "Suc n \<le> length (c # cs) \<and>
        hd (split_from sep acc (c # cs)) = rev acc @ take (Suc n) (c # cs) \<and>
        (Suc n = length (c # cs) \<or> prefix sep (drop (Suc n) (c # cs)))"
      by simp
    then show ?thesis by blast
  qed
qed

lemma fence_in_body:
  assumes "prefix ''```'' (drop n body @ ''```'' @ post)" and "n < length body"
  shows "sublist ''```'' (body @ ''``'')"
proof -
  have "drop n body \<noteq> []"
    using assms(2) by simp
  from prefix_of_longer [OF assms(1) this] have "prefix ''```'' (drop n body @ ''``'')"
    by simp
  then have "sublist ''```'' (take n body @ drop n body @ ''``'')"
    by (intro sublist_in_right prefix_imp_sublist)
  then show ?thesis
    by (metis append.assoc append_take_drop_id)
qed

lemma piece_after_json_marker:
  assumes closed: "\<not> sublist ''```'' (body @ ''``'')"
    and one: "\<not> prefix ''`json'' post" and two: "\<not> prefix ''``json'' post"
  shows "hd (split_from ''```'' [] (hd (split_from ''```json'' [] (body @ ''```'' @ post)))) = body"
proof -
  let ?t = "body @ ''```'' @ post"
  obtain n where n: "n \<le> length ?t" "hd (split_from ''```json'' [] ?t) = take n ?t"
    "n = length ?t \<or> prefix ''```json'' (drop n ?t)"
    using split_from_hd [of ?t "''```json''" "[]"] by auto
  have nobody: "\<not> sublist ''```'' body"
    using closed by (auto dest: sublist_in_left)
  have fj: "prefix ''```'' ''```json''"
    by simp
  consider (far) "length body + 3 \<le> n" | (inside) "n < length body" | (at) "n = length body"
    | (plus1) "n = Suc (length body)" | (plus2) "n = Suc (Suc (length body))"
    by linarith
  then show ?thesis
  proof cases
    case far
    define m where "m = n - (length body + 3)"
    with far have "n - length body = Suc (Suc (Suc m))" and "length body \<le> n"
      by arith+
    then have "take n ?t = body @ ''```'' @ take m post"
      by simp
    with n(2) closed show ?thesis
      using split_from_first [of "''```''" body "[]" "take m post"]
      by simp
  next
    case inside
    then have "n \<noteq> length ?t" by simp
    with n(3) have "prefix ''```json'' (drop n ?t)" by simp
    with fj have "prefix ''```'' (drop n ?t)"
      using prefix_order.trans by blast
    with inside have "prefix ''```'' (drop n body @ ''```'' @ post)" by simp
    from fence_in_body [OF this inside] closed show ?thesis by simp
  next
    case at
    then have "take n ?t = body" by simp
    with n(2) nobody show ?thesis
      by (simp add: split_from_none)
  next
    case plus1
    then have "n \<noteq> length ?t" by simp
    with n(3) plus1 have "prefix ''```json'' (''``'' @ post)" by simp
    with one show ?thesis by simp
  next
    case plus2
    then have "n \<noteq> length ?t" by simp
    with n(3) plus2 have "prefix ''```json'' (''`'' @ post)" by simp
    with two show ?thesis by simp
  qed
qed

lemma extract_json_tier_a:
  assumes "\<not> sublist ''```json'' (pre @ ''```jso'')"
    and "\<not> sublist ''```'' (body @ ''``'')"
    and "\<not> prefix ''`json'' post" and "\<not> prefix ''``json'' post"
  shows "extract_json (pre @ ''```json'' @ body @ ''```'' @ post) = Inr (strip body)"
proof -
  let ?raw = "pre @ ''```json'' @ body @ ''```'' @ post"
  have c: "sublist ''```json'' ?raw"
    by (rule sublist_appendI)
  have s: "split_from ''```json'' [] ?raw = pre # split_from ''```json'' [] (body @ ''```'' @ post)"
    using split_from_first [of "''```json''" pre "[]" "body @ ''```'' @ post"] assms(1) by simp
  obtain a as where as: "split_from ''```json'' [] (body @ ''```'' @ post) = a # as"
    using split_from_nonempty [of "''```json''" "[]" "body @ ''```'' @ post"]
    by (cases "split_from ''```json'' [] (body @ ''```'' @ post)") auto
  obtain b bs where bs: "split_from ''```'' [] a = b # bs"
    using split_from_nonempty [of "''```''" "[]" a] by (cases "split_from ''```'' [] a") auto
  have "b = body"
    using piece_after_json_marker [OF assms(2-4)] as bs by simp
  with c s as bs show ?thesis
    by (simp add: extract_json_def py_split_def py_index_def)
qed

lemma extract_json_tier_b:
  assumes "\<not> sublist ''```json'' (pre @ ''```'' @ body @ ''```'' @ post)"
    and "\<not> sublist ''```'' (pre @ ''``'')"
    and "\<not> sublist ''```'' (body @ ''``'')"
  shows "extract_json (pre @ ''```'' @ body @ ''```'' @ post) = Inr (strip body)"
proof -
  let ?raw = "pre @ ''```'' @ body @ ''```'' @ post"
  have c: "sublist ''```'' ?raw"
    by (rule sublist_appendI)
  have "split_from ''```'' [] ?raw = pre # split_from ''```'' [] (body @ ''```'' @ post)"
    using split_from_first [of "''```''" pre "[]" "body @ ''```'' @ post"] assms(2) by simp
  also have "split_from ''```'' [] (body @ ''```'' @ post) = body # split_from ''```'' [] post"
    using split_from_first [of "''```''" body "[]" post] assms(3) by simp
  finally show ?thesis
    using c assms(1) by (simp add: extract_json_def py_split_def py_index_def)
qed

lemma extract_json_tier_c:
  assumes "\<not> sublist ''```'' raw"
  shows "extract_json raw = Inr raw"
proof -
  have "sublist ''```'' ''```json''" by simp
  with assms have "\<not> sublist ''```json'' raw"
    using sublist_order.order.trans by blast
  with assms show ?thesis
    by (simp add: extract_json_def)
qed

section \<open>The prompt builder\<close>

text \<open>
  C7. The prompt is a total function of its five string arguments: it always returns a
  string, the same in every environment, and the string contains "Coursera", "YouTube",
  "URL not found" and each of the five arguments verbatim.
\<close>

theorem build_prompt_contents:
  "sublist ''Coursera'' (build_prompt e (PStr s) (PStr b) (PStr k) (PStr t) (PStr y)) \<and>
   sublist ''YouTube'' (build_prompt e (PStr s) (PStr b) (PStr k) (PStr t) (PStr y)) \<and>
   sublist ''URL not found'' (build_prompt e (PStr s) (PStr b) (PStr k) (PStr t) (PStr y)) \<and>
   sublist s (build_prompt e (PStr s) (PStr b) (PStr k) (PStr t) (PStr y)) \<and>
   sublist b (build_prompt e (PStr s) (PStr b) (PStr k) (PStr t) (PStr y)) \<and>
   sublist k (build_prompt e (PStr s) (PStr b) (PStr k) (PStr t) (PStr y)) \<and>
   sublist t (build_prompt e (PStr s) (PStr b) (PStr k) (PStr t) (PStr y)) \<and>
   sublist y (build_prompt e (PStr s) (PStr b) (PStr k) (PStr t) (PStr y)) \<and>
   build_prompt e' (PStr s) (PStr b) (PStr k) (PStr t) (PStr y) =
     build_prompt e (PStr s) (PStr b) (PStr k) (PStr t) (PStr y)"
proof -
  let ?p = "build_prompt e (PStr s) (PStr b) (PStr k) (PStr t) (PStr y)"
  have s: "sublist s ?p"
    unfolding build_prompt_def py_str.simps by (rule sublist_appendI)
  have b: "sublist b ?p"
    unfolding build_prompt_def py_str.simps
    by (rule sublist_in_right, rule sublist_in_right, rule sublist_in_right,
        rule sublist_append_rightI)
  have k: "sublist k ?p"
    unfolding build_prompt_def py_str.simps
    by (rule sublist_in_right, rule sublist_in_right, rule sublist_in_right, rule sublist_in_right, rule sublist_in_right,
        rule sublist_append_rightI)
  have t: "sublist t ?p"
    unfolding build_prompt_def py_str.simps
    by (rule sublist_in_right, rule sublist_in_right, rule sublist_in_right, rule sublist_in_right, rule sublist_in_right, rule sublist_in_right, rule sublist_in_right,
        rule sublist_append_rightI)
  have y: "sublist y ?p"
    unfolding build_prompt_def py_str.simps
    by (rule sublist_in_right, rule sublist_in_right, rule sublist_in_right, rule sublist_in_right, rule sublist_in_right, rule sublist_in_right, rule sublist_in_right, rule sublist_in_right, rule sublist_in_right,
        rule sublist_append_rightI)
  have same: "build_prompt e' (PStr s) (PStr b) (PStr k) (PStr t) (PStr y) = ?p"
    by (simp add: build_prompt_def)
  show ?thesis
    using s b k t y same build_prompt_tail[OF instructions_Coursera]
      build_prompt_tail[OF instructions_YouTube] build_prompt_tail[OF instructions_URL_not_found]
    by simp
qed

section \<open>Extraction\<close>

text \<open>
  C4. The extraction step obeys the three-tier precedence.
  \<^item> A reply \<open>pre ```json body ``` post\<close>, where the marker is the first \<open>```json\<close> of
    the reply, the fence after \<open>body\<close> is the first plain fence after the marker and
    that fence is not followed by one or two more backticks and \<open>json\<close>, gives
    \<open>body\<close> stripped.
  \<^item> A reply \<open>pre ``` body ``` post\<close> without any \<open>```json\<close>, whose two fences are
    the first and the second of the reply, gives \<open>body\<close> stripped.
  \<^item> A reply without a fence is the candidate as it is.
  \<^item> The three replies of the claim all give the string {"a":1}, and in each case the
    resolver returns what \<^verbatim>\<open>json.loads\<close> makes of that string, the mapping with the key
    "a" bound to 1.
\<close>

theorem extraction_precedence:
  \<open>(\<not> sublist ''```json'' (pre @ ''```jso'') \<and> \<not> sublist ''```'' (body @ ''``'') \<and>
    \<not> prefix ''`json'' post \<and> \<not> prefix ''``json'' post
    \<longrightarrow> extract_json (pre @ ''```json'' @ body @ ''```'' @ post) = Inr (strip body)) \<and>
   (\<not> sublist ''```json'' (pre @ ''```'' @ body @ ''```'' @ post) \<and>
    \<not> sublist ''```'' (pre @ ''``'') \<and> \<not> sublist ''```'' (body @ ''``'')
    \<longrightarrow> extract_json (pre @ ''```'' @ body @ ''```'' @ post) = Inr (strip body)) \<and>
   (\<not> sublist ''```'' reply \<longrightarrow> extract_json reply = Inr reply) \<and>
   extract_json reply_fenced_json = Inr ''{"a":1}'' \<and>
   extract_json reply_fenced = Inr ''{"a":1}'' \<and>
   extract_json reply_bare = Inr ''{"a":1}'' \<and>
   (initialize_gemini e = Inr () \<and>
    generate_content e (build_prompt e s b k t y) = Inr raw \<and>
    (raw = reply_fenced_json \<or> raw = reply_fenced \<or> raw = reply_bare) \<and>
    loads e ''{"a":1}'' = Inr (PDict [(''a'', PInt 1)])
    \<longrightarrow> get_course_recommendations e s b k t y = Inr (PDict [(''a'', PInt 1)]))\<close>
proof -
  have parse: "get_course_recommendations e s b k t y = Inr (PDict [(''a'', PInt 1)])"
    if "initialize_gemini e = Inr ()"
      and "generate_content e (build_prompt e s b k t y) = Inr raw"
      and "raw = reply_fenced_json \<or> raw = reply_fenced \<or> raw = reply_bare"
      and \<open>loads e ''{"a":1}'' = Inr (PDict [(''a'', PInt 1)])\<close>
    using that
    by (auto simp: extract_fenced_json extract_fenced extract_bare
        get_course_recommendations_def get_course_recommendations_try_def)
  show ?thesis
    using extract_json_tier_a [of pre body post] extract_json_tier_b [of pre body post]
      extract_json_tier_c [of reply] extract_fenced_json extract_fenced extract_bare parse
    by blast
qed

theorem extraction_precedence_witness:
  \<open>extract_json (''Here you go:\<newline>'' @ ''```json'' @ ''\<newline>{"b": [2]}\<newline>'' @ ''```'' @ ''\<newline>Enjoy!'')
      = Inr (strip ''\<newline>{"b": [2]}\<newline>'') \<and>
   extract_json (''Sure.'' @ ''```'' @ '' {"c": null} '' @ ''```'' @ '' Bye'')
      = Inr (strip '' {"c": null} '') \<and>
   extract_json ''[1, 2, 3]'' = Inr ''[1, 2, 3]'' \<and>
   get_course_recommendations
      (env_reply reply_fenced_json [(''{"a":1}'', PDict [(''a'', PInt 1)])])
      (PStr ''Python'') (PStr ''free'') (PStr ''Beginner'') (PStr ''2h'') (PStr ''video'') =
    Inr (PDict [(''a'', PInt 1)]) \<and>
   get_course_recommendations
      (env_reply reply_fenced [(''{"a":1}'', PDict [(''a'', PInt 1)])])
      (PStr ''Python'') (PStr ''free'') (PStr ''Beginner'') (PStr ''2h'') (PStr ''video'') =
    Inr (PDict [(''a'', PInt 1)]) \<and>
   get_course_recommendations
      (env_reply reply_bare [(''{"a":1}'', PDict [(''a'', PInt 1)])])
      (PStr ''Python'') (PStr ''free'') (PStr ''Beginner'') (PStr ''2h'') (PStr ''video'') =
    Inr (PDict [(''a'', PInt 1)])\<close>
proof -
  let ?tbl = \<open>[(''{"a":1}'', PDict [(''a'', PInt 1)])]\<close>
  have a1: "\<not> sublist ''```json'' (''Here you go:\<newline>'' @ ''```jso'')" by code_simp
  have a2: \<open>\<not> sublist ''```'' (''\<newline>{"b": [2]}\<newline>'' @ ''``'')\<close> by code_simp
  have a3: "\<not> prefix ''`json'' ''\<newline>Enjoy!''" by code_simp
  have a4: "\<not> prefix ''``json'' ''\<newline>Enjoy!''" by code_simp
  have b1: \<open>\<not> sublist ''```json'' (''Sure.'' @ ''```'' @ '' {"c": null} '' @ ''```'' @ '' Bye'')\<close>
    by code_simp
  have b2: "\<not> sublist ''```'' (''Sure.'' @ ''``'')" by code_simp
  have b3: \<open>\<not> sublist ''```'' ('' {"c": null} '' @ ''``'')\<close> by code_simp
  have c1: "\<not> sublist ''```'' ''[1, 2, 3]''" by code_simp
  have p1: "initialize_gemini (env_reply raw ?tbl) = Inr ()" for raw
    by (rule initialize_env_reply)
  have p2: "generate_content (env_reply raw ?tbl) p = Inr raw" for raw p
    by (rule env_reply_simps)
  have p3: \<open>loads (env_reply raw ?tbl) ''{"a":1}'' = Inr (PDict [(''a'', PInt 1)])\<close> for raw
    by (simp add: env_reply_simps loads_table_def)
  have w1: \<open>extract_json (''Here you go:\<newline>'' @ ''```json'' @ ''\<newline>{"b": [2]}\<newline>'' @ ''```'' @ ''\<newline>Enjoy!'')
      = Inr (strip ''\<newline>{"b": [2]}\<newline>'')\<close>
    by (rule extraction_precedence [THEN conjunct1, THEN mp]) (intro conjI a1 a2 a3 a4)
  have w2: \<open>extract_json (''Sure.'' @ ''```'' @ '' {"c": null} '' @ ''```'' @ '' Bye'')
      = Inr (strip '' {"c": null} '')\<close>
    by (rule extraction_precedence [THEN conjunct2, THEN conjunct1, THEN mp]) (intro conjI b1 b2 b3)
  have w3: "extract_json ''[1, 2, 3]'' = Inr ''[1, 2, 3]''"
    by (rule extraction_precedence [THEN conjunct2, THEN conjunct2, THEN conjunct1, THEN mp]) (rule c1)
  have w4: "get_course_recommendations (env_reply reply_fenced_json ?tbl)
      (PStr ''Python'') (PStr ''free'') (PStr ''Beginner'') (PStr ''2h'') (PStr ''video'') =
      Inr (PDict [(''a'', PInt 1)])"
    by (rule extraction_precedence [where raw = reply_fenced_json, THEN conjunct2, THEN conjunct2,
          THEN conjunct2, THEN conjunct2, THEN conjunct2, THEN conjunct2, THEN mp])
      (simp add: p1 p2 p3)
  have w5: "get_course_recommendations (env_reply reply_fenced ?tbl)
      (PStr ''Python'') (PStr ''free'') (PStr ''Beginner'') (PStr ''2h'') (PStr ''video'') =
      Inr (PDict [(''a'', PInt 1)])"
    by (rule extraction_precedence [where raw = reply_fenced, THEN conjunct2, THEN conjunct2,
          THEN conjunct2, THEN conjunct2, THEN conjunct2, THEN conjunct2, THEN mp])
      (simp add: p1 p2 p3)
  have w6: "get_course_recommendations (env_reply reply_bare ?tbl)
      (PStr ''Python'') (PStr ''free'') (PStr ''Beginner'') (PStr ''2h'') (PStr ''video'') =
      Inr (PDict [(''a'', PInt 1)])"
    by (rule extraction_precedence [where raw = reply_bare, THEN conjunct2, THEN conjunct2,
          THEN conjunct2, THEN conjunct2, THEN conjunct2, THEN conjunct2, THEN mp])
      (simp add: p1 p2 p3)
  from w1 w2 w3 w4 w5 w6 show ?thesis
    by (intro conjI)
qed

section \<open>When the fallback is used\<close>




section \<open>Faults surfaced as error objects\<close>





section \<open>The keys of a result\<close>

text \<open>
  C5, as amended. The objects that the service builds itself never contain both the key
  \<open>error\<close> and the key \<open>recommendations\<close>: not an error object, not a payload of the
  fallback generator. A response contains both keys only with status 200 and only when
  it is the parsed reply of the model to that request, which then contains both; and
  with a credential configured, the parsed reply to a valid request is returned as it
  is, whatever its keys.
\<close>

theorem keys_exclusive_unless_reply_has_both:
  "\<not> (has_key (error_object m) ''error'' \<and> has_key (error_object m) ''recommendations'') \<and>
   (case get_fallback_data e s0 k0 of
      Inl x \<Rightarrow> True
    | Inr r \<Rightarrow> \<not> (has_key r ''error'' \<and> has_key r ''recommendations'')) \<and>
   (has_key (snd (recommendations e data)) ''error'' \<and>
    has_key (snd (recommendations e data)) ''recommendations''
    \<longrightarrow> fst (recommendations e data) = 200 \<and>
        (\<exists>s b k t y raw js.
           py_get data ''subject'' (PStr []) = Inr s \<and>
           py_get data ''budget'' (PStr []) = Inr b \<and>
           py_get data ''skillLevel'' (PStr []) = Inr k \<and>
           py_get data ''timeAvailability'' (PStr []) = Inr t \<and>
           py_get data ''learningStyle'' (PStr []) = Inr y \<and>
           generate_content e (build_prompt e s b k t y) = Inr raw \<and>
           extract_json raw = Inr js \<and>
           loads e js = Inr (snd (recommendations e data)))) \<and>
   (py_get data ''subject'' (PStr []) = Inr s \<and>
    py_get data ''budget'' (PStr []) = Inr b \<and>
    py_get data ''skillLevel'' (PStr []) = Inr k \<and>
    py_get data ''timeAvailability'' (PStr []) = Inr t \<and>
    py_get data ''learningStyle'' (PStr []) = Inr y \<and>
    truthy s \<and>
    generate_content e (build_prompt e s b k t y) = Inr raw \<and>
    extract_json raw = Inr js \<and>
    loads e js = Inr r \<and>
    initialize_gemini e = Inr ()
    \<longrightarrow> recommendations e data = (200, r))"
proof -
  have c1: "\<not> (has_key (error_object m) ''error'' \<and> has_key (error_object m) ''recommendations'')"
    by (simp add: error_object_def)
  have c2: "(case get_fallback_data e s0 k0 of
      Inl x \<Rightarrow> True
    | Inr r \<Rightarrow> \<not> (has_key r ''error'' \<and> has_key r ''recommendations''))"
    by (simp add: get_fallback_data_def split: sum.splits)
  show ?thesis
    using c1 c2 endpoint_both_keys [of e data]
      endpoint_returns_reply [of data s b k t y e raw js r]
    by blast
qed

theorem keys_exclusive_unless_reply_has_both_witness:
  "fst (recommendations
      (env_reply reply_both_keys
         [(reply_both_keys, PDict [(''error'', PStr ''quota''), (''recommendations'', PList [])])])
      (PDict [(''subject'', PStr ''Python'')])) = 200 \<and>
   recommendations
      (env_reply reply_both_keys
         [(reply_both_keys, PDict [(''error'', PStr ''quota''), (''recommendations'', PList [])])])
      (PDict [(''subject'', PStr ''Python'')]) =
    (200, PDict [(''error'', PStr ''quota''), (''recommendations'', PList [])])"
proof -
  let ?r = "PDict [(''error'', PStr ''quota''), (''recommendations'', PList [])]"
  let ?e = "env_reply reply_both_keys [(reply_both_keys, ?r)]"
  let ?d = "PDict [(''subject'', PStr ''Python'')]"
  have both: "has_key (snd (recommendations ?e ?d)) ''error'' \<and>
      has_key (snd (recommendations ?e ?d)) ''recommendations''"
    by (simp add: both_keys_response)
  have w1: "fst (recommendations ?e ?d) = 200"
    using keys_exclusive_unless_reply_has_both [where e = ?e and data = ?d,
        THEN conjunct2, THEN conjunct2, THEN conjunct1, THEN mp, OF both]
    by (rule conjunct1)
  have x: "extract_json reply_both_keys = Inr reply_both_keys"
    by code_simp
  have w2: "recommendations ?e ?d = (200, ?r)"
    by (rule keys_exclusive_unless_reply_has_both [where e = ?e and data = ?d
          and s = "PStr ''Python''" and b = "PStr []" and k = "PStr []" and t = "PStr []"
          and y = "PStr []" and raw = reply_both_keys and js = reply_both_keys and r = ?r,
          THEN conjunct2, THEN conjunct2, THEN conjunct2, THEN mp])
      (simp add: env_reply_simps initialize_env_reply x loads_table_def)
  from w1 w2 show ?thesis
    by (intro conjI)
qed

text \<open>
  The claim as written holds for every reply of the model. A reply that is a JSON object
  with both keys is returned with both keys.
\<close>

theorem both_keys_counterexample:
  "has_key (snd (recommendations
      (env_reply reply_both_keys
         [(reply_both_keys, PDict [(''error'', PStr ''quota''), (''recommendations'', PList [])])])
      (PDict [(''subject'', PStr ''Python'')]))) ''error'' \<and>
   has_key (snd (recommendations
      (env_reply reply_both_keys
         [(reply_both_keys, PDict [(''error'', PStr ''quota''), (''recommendations'', PList [])])])
      (PDict [(''subject'', PStr ''Python'')]))) ''recommendations''"
proof -
  have x: "extract_json reply_both_keys = Inr reply_both_keys"
    by code_simp
  show ?thesis
    by (simp add: recommendations_def recommendations_try_def get_course_recommendations_def
        get_course_recommendations_try_def initialize_env_reply env_reply_simps x loads_table_def)
qed

section \<open>The fallback generator\<close>

text \<open>
  C8, as amended. For every pair of strings (subject, skillLevel) the fallback generator
  returns, without raising, the fixed templates with the subject and the skill level
  substituted: exactly three course entries and exactly three roadmap stages. The result
  is the same in every environment, so two calls with the same arguments give the same
  output. With a string skillLevel it returns for every subject. With a skillLevel that
  is not a string it raises the attribute error of \<^verbatim>\<open>skill_level.lower()\<close>.
\<close>

theorem fallback_total_deterministic:
  \<open>get_fallback_data e (PStr subject) (PStr skill) =
     Inr (PDict
            [(''recommendations'', PList
               [PDict
                  [(''course_name'', PStr (subject @ '' for '' @ skill @ ''s'')),
                   (''platform'', PStr ''Coursera''),
                   (''cost'', PStr ''$49.99''),
                   (''duration'', PStr ''8 weeks''),
                   (''description'', PStr (''A comprehensive introduction to '' @ subject @
                      '' designed for '' @ lower skill @ '' learners.'')),
                   (''url'', PStr ''https://coursera.org''),
                   (''skill_level'', PStr skill)],
                PDict
                  [(''course_name'', PStr (''Advanced '' @ subject)),
                   (''platform'', PStr ''Udemy''),
                   (''cost'', PStr ''$29.99''),
                   (''duration'', PStr ''10 weeks''),
                   (''description'', PStr (''Take your '' @ subject @
                      '' skills to the next level with practical projects.'')),
                   (''url'', PStr ''https://udemy.com''),
                   (''skill_level'', PStr ''Intermediate'')],
                PDict
                  [(''course_name'', PStr (subject @ '' Bootcamp'')),
                   (''platform'', PStr ''edX''),
                   (''cost'', PStr ''$199.99''),
                   (''duration'', PStr ''12 weeks''),
                   (''description'', PStr (''Intensive '' @ subject @
                      '' training with industry experts.'')),
                   (''url'', PStr ''https://edx.org''),
                   (''skill_level'', PStr ''Advanced'')]]),
             (''roadmap'', PList
               [PDict
                  [(''stage'', PStr ''Stage 1: Fundamentals''),
                   (''description'', PStr (''Learn the basic concepts and principles of '' @ subject)),
                   (''estimated_time'', PStr ''4 weeks''),
                   (''key_skills'', PList [PStr ''Basic concepts'', PStr ''Terminology'', PStr ''Simple applications'']),
                   (''resources'', PList [PStr ''Textbooks'', PStr ''Online tutorials''])],
                PDict
                  [(''stage'', PStr ''Stage 2: Practical Application''),
                   (''description'', PStr (''Apply your knowledge of '' @ subject @ '' to real-world problems'')),
                   (''estimated_time'', PStr ''6 weeks''),
                   (''key_skills'', PList [PStr ''Problem-solving'', PStr ''Tool usage'', PStr ''Applied techniques'']),
                   (''resources'', PList [PStr ''Practice exercises'', PStr ''Case studies''])],
                PDict
                  [(''stage'', PStr ''Stage 3: Advanced Topics''),
                   (''description'', PStr (''Explore specialized areas within '' @ subject)),
                   (''estimated_time'', PStr ''8 weeks''),
                   (''key_skills'', PList [PStr ''Advanced methodologies'', PStr ''Specialized tools'', PStr ''Research skills'']),
                   (''resources'', PList [PStr ''Academic papers'', PStr ''Expert workshops''])]]),
             (''additional_tips'', PStr (''Consider joining online communities related to '' @ subject @
                '' to network with other learners and professionals. Consistent practice is key to mastering this field.''))]) \<and>
   (case get_fallback_data e (PStr subject) (PStr skill) of
      Inl x \<Rightarrow> False
    | Inr r \<Rightarrow>
        length (items (lookup r ''recommendations'')) = 3 \<and>
        length (items (lookup r ''roadmap'')) = 3) \<and>
   get_fallback_data e' (PStr subject) (PStr skill) = get_fallback_data e (PStr subject) (PStr skill) \<and>
   (\<exists>r. get_fallback_data e any_subject (PStr skill) = Inr r) \<and>
   ((\<forall>k. skill_level \<noteq> PStr k) \<longrightarrow>
      get_fallback_data e any_subject skill_level =
        Inl (AttributeError ([CHR 0x27] @ type_name skill_level @
               ''\' object has no attribute \'lower'' @ [CHR 0x27])))\<close>
proof -
  have raises: \<open>get_fallback_data e any_subject skill_level =
      Inl (AttributeError ([CHR 0x27] @ type_name skill_level @
             ''\' object has no attribute '' @ [CHR 0x27] @ ''lower'' @ [CHR 0x27]))\<close>
    if "\<forall>k. skill_level \<noteq> PStr k"
    using fallback_on_other_skill [OF that] by (simp add: no_attribute_def)
  show ?thesis
    using raises by (simp add: get_fallback_data_def)
qed

theorem fallback_total_deterministic_witness:
  \<open>get_fallback_data (env_reply reply_bare []) (PStr ''Go'') PNone =
     Inl (AttributeError (''\'NoneType\' object has no attribute \'lower'' @ [CHR 0x27]))\<close>
proof -
  have n: "\<forall>k. PNone \<noteq> PStr k" by simp
  show ?thesis
    using fallback_total_deterministic [where e = "env_reply reply_bare []"
        and any_subject = "PStr ''Go''" and skill_level = PNone,
        THEN conjunct2, THEN conjunct2, THEN conjunct2, THEN conjunct2, THEN mp, OF n]
    by simp
qed

text \<open>
  The claim as written has no failure mode for any pair. With the skillLevel 3 the
  generator raises, and the endpoint, reaching it through a \<^verbatim>\<open>ValueError\<close> that mentions
  the API key, answers 500.
\<close>

theorem fallback_raises_counterexample:
  \<open>get_fallback_data (env_raise (ValueError ''API key expired'')) (PStr ''Python'') (PInt 3) =
     Inl (AttributeError (''\'int\' object has no attribute \'lower'' @ [CHR 0x27])) \<and>
   recommendations (env_raise (ValueError ''API key expired''))
     (PDict [(''subject'', PStr ''Python''), (''skillLevel'', PInt 3)]) =
     (500, PDict [(''error'', PStr (''Server error: \'int\' object has no attribute \'lower'' @ [CHR 0x27]))])\<close>
proof -
  have m: "sublist ''API key'' ''API key expired''"
    by code_simp
  show ?thesis
    by (simp add: recommendations_def recommendations_try_def get_course_recommendations_def
        get_course_recommendations_try_def initialize_env_raise env_raise_simps m
        get_fallback_data_def no_attribute_def error_object_def)
qed

text \<open>
  C10. In the fallback generator's output only the first course entry carries the
  caller's skill level: the second entry's \<open>skill_level\<close> is "Intermediate" and the
  third's is "Advanced", whatever the arguments are.
\<close>

theorem fallback_skill_levels:
  "(case get_fallback_data e subject (PStr skill) of
      Inl x \<Rightarrow> False
    | Inr r \<Rightarrow>
        map (\<lambda>c. lookup c ''skill_level'') (items (lookup r ''recommendations'')) =
          [Some (PStr skill), Some (PStr ''Intermediate''), Some (PStr ''Advanced'')])"
  by (simp add: get_fallback_data_def)

section \<open>Validation at the endpoint\<close>

text \<open>
  C6. For every request object in which the key \<open>subject\<close> is missing or bound to the
  empty string, the endpoint answers 400 with the body {"error": "Subject is required"},
  whatever the environment is: the resolver has no part in the response. The empty
  object is such a request.
\<close>

theorem missing_subject_rejected:
  "map_of kvs ''subject'' = None \<or> map_of kvs ''subject'' = Some (PStr []) \<Longrightarrow>
   recommendations e (PDict kvs) = (400, PDict [(''error'', PStr ''Subject is required'')])"
  by (auto simp: recommendations_def recommendations_try_def error_object_def)

theorem missing_subject_rejected_witness:
  "recommendations (env_reply reply_bare []) (PDict []) =
     (400, PDict [(''error'', PStr ''Subject is required'')]) \<and>
   recommendations (env_reply reply_bare [])
       (PDict [(''subject'', PStr []), (''budget'', PStr ''free'')]) =
     (400, PDict [(''error'', PStr ''Subject is required'')])"
  using missing_subject_rejected [of "[]" "env_reply reply_bare []"]
    missing_subject_rejected [of "[(''subject'', PStr []), (''budget'', PStr ''free'')]"
      "env_reply reply_bare []"]
  by simp

text \<open>
  C9. For every request whose parsed body is not an object (null, a number, a string, a
  list, a boolean), reading the first field raises inside the handler: the endpoint
  answers 500, not 400, with the body {"error": "Server error: <message>"}, where the
  message is the attribute error of the body's type.
\<close>

theorem non_object_body_server_error:
  \<open>(\<forall>kvs. data \<noteq> PDict kvs) \<Longrightarrow>
   recommendations e data =
     (500, PDict [(''error'', PStr (''Server error: '' @ [CHR 0x27] @ type_name data @
        ''\' object has no attribute \'get'' @ [CHR 0x27]))])\<close>
  by (cases data) (simp_all add: recommendations_def recommendations_try_def error_object_def no_attribute_def)

theorem non_object_body_server_error_witness:
  \<open>recommendations (env_reply reply_bare []) PNone =
     (500, PDict [(''error'', PStr (''Server error: \'NoneType\' object has no attribute \'get'' @ [CHR 0x27]))])\<close>
  using non_object_body_server_error [of PNone "env_reply reply_bare []"] by simp

section \<open>The request without a credential\<close>

text \<open>
  C2. The request {"subject": "Python", "skillLevel": "Beginner"} with no credential
  configured: the claim expects the fallback payload. The message that
  \<open>initialize_gemini\<close> raises does not contain the text "API key" that the handler
  looks for, so the endpoint answers 200 with that message as an error object and with
  no \<open>recommendations\<close> key.
\<close>

theorem no_credential_python_beginner:
  "recommendations (e\<lparr>api_key := None\<rparr>)
     (PDict [(''subject'', PStr ''Python''), (''skillLevel'', PStr ''Beginner'')]) =
   (200, PDict [(''error'', PStr ''Missing GOOGLE_API_KEY environment variable. Please check your .env file.'')])"
  by (simp add: recommendations_def recommendations_try_def get_course_recommendations_def
      get_course_recommendations_try_def initialize_gemini_def error_object_def
      missing_key_message_no_match)
     (simp add: missing_key_message_def)

end
